theory Spec2Isabelle
  imports Complex_Main "HOL-Library.Multiset"
begin

section \<open>Data model (schema.ts, db/schema.ts)\<close>

text \<open>
  The two zod enums of \<^verbatim>\<open>schema.ts\<close>, which are also the two PostgreSQL enums of
  \<^verbatim>\<open>db/schema.ts\<close>. The constructors carry a prefix because several of the codes
  (\<^verbatim>\<open>it\<close>, \<^verbatim>\<open>de\<close>, ...) are too short to be kept free for variables.
\<close>

datatype SupportedLanguage =
  L_en | L_es | L_fr | L_de | L_it | L_pt | L_ru | L_ja | L_ko | L_zh | L_ar | L_hi

datatype TranslationStatus = pending | processing | completed | failed

text \<open>
  A JavaScript \<^verbatim>\<open>Date\<close> (a \<^verbatim>\<open>timestamp\<close> column) is its number of milliseconds since
  the epoch. Identifiers, \<^verbatim>\<open>file_size\<close> and \<^verbatim>\<open>progress_percentage\<close> are the values of
  \<^verbatim>\<open>serial\<close>/\<^verbatim>\<open>integer\<close> columns, modelled as integers; \<^verbatim>\<open>duration\<close> is the value of a
  nullable \<^verbatim>\<open>real\<close> column. The storage layer is taken to return a column value as it
  was written: the width of the integer columns and the precision of the real column are
  outside this model.
\<close>

type_synonym timestamp = int

record Video =
  v_id :: int
  v_filename :: string
  v_original_filename :: string
  v_file_path :: string
  v_file_size :: int
  v_duration :: "real option"
  v_mime_type :: string
  v_original_language :: "SupportedLanguage option"
  v_uploaded_at :: timestamp
  v_updated_at :: timestamp

record Translation =
  t_id :: int
  t_video_id :: int
  t_target_language :: SupportedLanguage
  t_status :: TranslationStatus
  t_translated_audio_path :: "string option"
  t_transcript_original :: "string option"
  t_transcript_translated :: "string option"
  t_progress_percentage :: int
  t_error_message :: "string option"
  t_started_at :: "timestamp option"
  t_completed_at :: "timestamp option"
  t_created_at :: timestamp
  t_updated_at :: timestamp

text \<open>
  \<^verbatim>\<open>translationWithVideoSchema\<close>: every field of a Translation, and the joined Video
  under \<^verbatim>\<open>video\<close>.
\<close>

record TranslationWithVideo = Translation +
  video :: Video

record CreateTranslationInput =
  c_video_id :: int
  c_target_language :: SupportedLanguage

text \<open>
  What a handler throws: a JavaScript \<^verbatim>\<open>Error\<close> with its message, or the rejection of
  an input by the procedure's zod schema before the handler is called.
\<close>

datatype error = Error string | ValidationError

text \<open>
  The database: the rows of the two tables in insertion order, and the two \<^verbatim>\<open>serial\<close>
  sequences that number them. Every handler passes the database in and returns it
  (the module-level \<^verbatim>\<open>db\<close> of the source). A fault of the storage layer itself, which
  each handler logs and rethrows, is not a case of this model.
\<close>

record Database =
  videosTable :: "Video list"
  translationsTable :: "Translation list"
  videos_id_seq :: int
  translations_id_seq :: int

section \<open>Rendering of template literals\<close>

text \<open>
  \<^verbatim>\<open>`${input.video_id}`\<close> renders an integer in decimal, with a minus sign when negative
  (JavaScript changes to exponent notation only from \<open>10\<^sup>2\<^sup>1\<close> on, far beyond a
  \<^verbatim>\<open>serial\<close>); \<^verbatim>\<open>`${input.target_language}`\<close> renders the language code.
\<close>

fun digits10 :: "nat \<Rightarrow> string" where
  "digits10 n =
     (if n < 10 then [''0123456789'' ! n]
      else digits10 (n div 10) @ [''0123456789'' ! (n mod 10)])"

declare digits10.simps [simp del]

definition number_toString :: "int \<Rightarrow> string" where
  "number_toString i = (if i < 0 then CHR ''-'' # digits10 (nat (- i)) else digits10 (nat i))"

fun language_code :: "SupportedLanguage \<Rightarrow> string" where
  "language_code L_en = ''en''"
| "language_code L_es = ''es''"
| "language_code L_fr = ''fr''"
| "language_code L_de = ''de''"
| "language_code L_it = ''it''"
| "language_code L_pt = ''pt''"
| "language_code L_ru = ''ru''"
| "language_code L_ja = ''ja''"
| "language_code L_ko = ''ko''"
| "language_code L_zh = ''zh''"
| "language_code L_ar = ''ar''"
| "language_code L_hi = ''hi''"

section \<open>createTranslation (handlers/create_translation.ts)\<close>

text \<open>
  Handlers are named by the files from which \<^verbatim>\<open>index.ts\<close> imports them.
\<close>

text \<open>
  The handler runs two selects and one insert. \<open>now\<close> is the instant the insert's
  \<^verbatim>\<open>defaultNow()\<close> columns receive. The \<^verbatim>\<open>catch\<close> block logs and rethrows, so the
  thrown error is the result; the database is returned with it.
\<close>

definition createTranslation ::
  "timestamp \<Rightarrow> CreateTranslationInput \<Rightarrow> Database \<Rightarrow> (error + Translation) \<times> Database" where
  "createTranslation now input db =
     (let video = filter (\<lambda>v. v_id v = c_video_id input) (videosTable db) in
      if length video = 0 then
        (Inl (Error (''Video with ID '' @ number_toString (c_video_id input) @ '' not found'')), db)
      else
        let existingTranslation =
              filter (\<lambda>t. t_video_id t = c_video_id input \<and>
                           t_target_language t = c_target_language input)
                (translationsTable db)
        in
        if length existingTranslation > 0 then
          (Inl (Error (''Translation to '' @ language_code (c_target_language input) @
                       '' already exists for video '' @ number_toString (c_video_id input))), db)
        else
          let row = \<lparr> t_id = translations_id_seq db,
                      t_video_id = c_video_id input,
                      t_target_language = c_target_language input,
                      t_status = pending,
                      t_translated_audio_path = None,
                      t_transcript_original = None,
                      t_transcript_translated = None,
                      t_progress_percentage = 0,
                      t_error_message = None,
                      t_started_at = None,
                      t_completed_at = None,
                      t_created_at = now,
                      t_updated_at = now \<rparr>
          in (Inr row,
              db \<lparr> translationsTable := translationsTable db @ [row],
                   translations_id_seq := translations_id_seq db + 1 \<rparr>))"

section \<open>updateTranslationProgress (handlers/update_translation_progress.ts)\<close>

text \<open>
  \<^verbatim>\<open>updateTranslationProgressInputSchema\<close>. An \<^verbatim>\<open>.optional()\<close> field is \<open>None\<close> when the
  key is \<^verbatim>\<open>undefined\<close>; a \<^verbatim>\<open>.nullable().optional()\<close> field is \<open>None\<close> when undefined,
  \<open>Some None\<close> when \<^verbatim>\<open>null\<close>, and \<open>Some (Some x)\<close> when it holds \<open>x\<close>.
\<close>

record UpdateTranslationProgressInput =
  u_translation_id :: int
  u_status :: "TranslationStatus option"
  u_progress_percentage :: "int option"
  u_translated_audio_path :: "string option option"
  u_transcript_original :: "string option option"
  u_transcript_translated :: "string option option"
  u_error_message :: "string option option"
  u_started_at :: "timestamp option option"
  u_completed_at :: "timestamp option option"

text \<open>
  The object \<^verbatim>\<open>updateData\<close>: \<^verbatim>\<open>updated_at\<close> is always a key of it, each other key is
  present (\<open>Some\<close>) only when the handler assigned it.
\<close>

record UpdateData =
  d_updated_at :: timestamp
  d_status :: "TranslationStatus option"
  d_progress_percentage :: "int option"
  d_translated_audio_path :: "string option option"
  d_transcript_original :: "string option option"
  d_transcript_translated :: "string option option"
  d_error_message :: "string option option"
  d_started_at :: "timestamp option option"
  d_completed_at :: "timestamp option option"

text \<open>
  The eight \<^verbatim>\<open>if (input.f !== undefined) updateData.f = input.f\<close> statements, after
  \<^verbatim>\<open>updated_at: new Date()\<close>; \<open>now\<close> is that date.
\<close>

definition build_updateData :: "timestamp \<Rightarrow> UpdateTranslationProgressInput \<Rightarrow> UpdateData" where
  "build_updateData now input =
     \<lparr> d_updated_at = now,
       d_status = (if u_status input \<noteq> None then u_status input else None),
       d_progress_percentage =
         (if u_progress_percentage input \<noteq> None then u_progress_percentage input else None),
       d_translated_audio_path =
         (if u_translated_audio_path input \<noteq> None then u_translated_audio_path input else None),
       d_transcript_original =
         (if u_transcript_original input \<noteq> None then u_transcript_original input else None),
       d_transcript_translated =
         (if u_transcript_translated input \<noteq> None then u_transcript_translated input else None),
       d_error_message = (if u_error_message input \<noteq> None then u_error_message input else None),
       d_started_at = (if u_started_at input \<noteq> None then u_started_at input else None),
       d_completed_at = (if u_completed_at input \<noteq> None then u_completed_at input else None) \<rparr>"

text \<open>
  \<^verbatim>\<open>UPDATE translations SET ...\<close> on one row: a column named by a key of the object
  takes the key's value, every other column keeps its value.
\<close>

definition set_columns :: "UpdateData \<Rightarrow> Translation \<Rightarrow> Translation" where
  "set_columns d t =
     t \<lparr> t_updated_at := d_updated_at d,
         t_status := (case d_status d of None \<Rightarrow> t_status t | Some s \<Rightarrow> s),
         t_progress_percentage :=
           (case d_progress_percentage d of None \<Rightarrow> t_progress_percentage t | Some p \<Rightarrow> p),
         t_translated_audio_path :=
           (case d_translated_audio_path d of None \<Rightarrow> t_translated_audio_path t | Some x \<Rightarrow> x),
         t_transcript_original :=
           (case d_transcript_original d of None \<Rightarrow> t_transcript_original t | Some x \<Rightarrow> x),
         t_transcript_translated :=
           (case d_transcript_translated d of None \<Rightarrow> t_transcript_translated t | Some x \<Rightarrow> x),
         t_error_message := (case d_error_message d of None \<Rightarrow> t_error_message t | Some x \<Rightarrow> x),
         t_started_at := (case d_started_at d of None \<Rightarrow> t_started_at t | Some x \<Rightarrow> x),
         t_completed_at := (case d_completed_at d of None \<Rightarrow> t_completed_at t | Some x \<Rightarrow> x) \<rparr>"

text \<open>
  The update statement with its \<^verbatim>\<open>where\<close> and \<^verbatim>\<open>returning\<close>: the rows with the given id
  are rewritten in place and returned; the handler answers \<^verbatim>\<open>null\<close> (\<open>None\<close>) when
  none was, and the first of them otherwise.
\<close>

definition updateTranslationProgress ::
  "timestamp \<Rightarrow> UpdateTranslationProgressInput \<Rightarrow> Database \<Rightarrow> Translation option \<times> Database" where
  "updateTranslationProgress now input db =
     (let updateData = build_updateData now input;
          result = map (set_columns updateData)
                     (filter (\<lambda>t. t_id t = u_translation_id input) (translationsTable db));
          db' = db \<lparr> translationsTable :=
                       map (\<lambda>t. if t_id t = u_translation_id input
                                 then set_columns updateData t else t)
                         (translationsTable db) \<rparr>
      in if length result = 0 then (None, db') else (Some (result ! 0), db'))"


section \<open>uploadVideo (schema.ts, index.ts, handlers/upload_video.ts)\<close>

text \<open>
  The request as it reaches the procedure, before \<^verbatim>\<open>uploadVideoInputSchema\<close> has parsed
  it: the language is still a string.
\<close>

record RawUploadVideoInput =
  r_filename :: string
  r_original_filename :: string
  r_file_path :: string
  r_file_size :: int
  r_duration :: "real option"
  r_mime_type :: string
  r_original_language :: "string option"

record UploadVideoInput =
  i_filename :: string
  i_original_filename :: string
  i_file_path :: string
  i_file_size :: int
  i_duration :: "real option"
  i_mime_type :: string
  i_original_language :: "SupportedLanguage option"

text \<open>\<^verbatim>\<open>supportedLanguagesSchema\<close>: the twelve accepted strings, in the order of the enum.\<close>

definition supportedLanguagesSchema :: "string \<Rightarrow> SupportedLanguage option" where
  "supportedLanguagesSchema s =
     (if s = ''en'' then Some L_en else if s = ''es'' then Some L_es
      else if s = ''fr'' then Some L_fr else if s = ''de'' then Some L_de
      else if s = ''it'' then Some L_it else if s = ''pt'' then Some L_pt
      else if s = ''ru'' then Some L_ru else if s = ''ja'' then Some L_ja
      else if s = ''ko'' then Some L_ko else if s = ''zh'' then Some L_zh
      else if s = ''ar'' then Some L_ar else if s = ''hi'' then Some L_hi
      else None)"

text \<open>
  \<^verbatim>\<open>uploadVideoInputSchema\<close>: \<^verbatim>\<open>file_size\<close> is \<^verbatim>\<open>positive()\<close>, \<^verbatim>\<open>duration\<close> is
  \<^verbatim>\<open>positive().nullable()\<close>, \<^verbatim>\<open>original_language\<close> is a nullable member of the enum.
\<close>

definition uploadVideoInputSchema :: "RawUploadVideoInput \<Rightarrow> error + UploadVideoInput" where
  "uploadVideoInputSchema r =
     (if \<not> r_file_size r > 0 then Inl ValidationError
      else if (case r_duration r of None \<Rightarrow> False | Some d \<Rightarrow> \<not> d > 0) then Inl ValidationError
      else case r_original_language r of
             None \<Rightarrow>
               Inr \<lparr> i_filename = r_filename r, i_original_filename = r_original_filename r,
                     i_file_path = r_file_path r, i_file_size = r_file_size r,
                     i_duration = r_duration r, i_mime_type = r_mime_type r,
                     i_original_language = None \<rparr>
           | Some s \<Rightarrow>
               (case supportedLanguagesSchema s of
                  None \<Rightarrow> Inl ValidationError
                | Some l \<Rightarrow>
                    Inr \<lparr> i_filename = r_filename r, i_original_filename = r_original_filename r,
                          i_file_path = r_file_path r, i_file_size = r_file_size r,
                          i_duration = r_duration r, i_mime_type = r_mime_type r,
                          i_original_language = Some l \<rparr>))"

text \<open>
  The handler: one insert. The \<^verbatim>\<open>serial\<close> column takes the next value of its sequence and
  both \<^verbatim>\<open>defaultNow()\<close> columns take \<open>now\<close>; the inserted row is returned.
\<close>

definition uploadVideo :: "timestamp \<Rightarrow> UploadVideoInput \<Rightarrow> Database \<Rightarrow> Video \<times> Database" where
  "uploadVideo now input db =
     (let video = \<lparr> v_id = videos_id_seq db,
                    v_filename = i_filename input,
                    v_original_filename = i_original_filename input,
                    v_file_path = i_file_path input,
                    v_file_size = i_file_size input,
                    v_duration = i_duration input,
                    v_mime_type = i_mime_type input,
                    v_original_language = i_original_language input,
                    v_uploaded_at = now,
                    v_updated_at = now \<rparr>
      in (video, db \<lparr> videosTable := videosTable db @ [video],
                     videos_id_seq := videos_id_seq db + 1 \<rparr>))"

text \<open>
  The procedure \<^verbatim>\<open>uploadVideo\<close> of \<^verbatim>\<open>appRouter\<close>:
  \<^verbatim>\<open>.input(uploadVideoInputSchema).mutation(({ input }) => uploadVideo(input))\<close>. The
  handler runs only on an input the schema has accepted.
\<close>

definition appRouter_uploadVideo ::
  "timestamp \<Rightarrow> RawUploadVideoInput \<Rightarrow> Database \<Rightarrow> (error + Video) \<times> Database" where
  "appRouter_uploadVideo now r db =
     (case uploadVideoInputSchema r of
        Inl e \<Rightarrow> (Inl e, db)
      | Inr input \<Rightarrow> (let (video, db') = uploadVideo now input db in (Inr video, db')))"

section \<open>The queries\<close>


text \<open>
  \<^verbatim>\<open>orderBy(desc(column))\<close> on timestamps. SQL leaves the order of rows with equal keys
  open; the model keeps them in the order of the table.
\<close>

definition orderBy_desc :: "('a \<Rightarrow> timestamp) \<Rightarrow> 'a list \<Rightarrow> 'a list" where
  "orderBy_desc column rows = sort_key (\<lambda>r. - column r) rows"

definition getVideos :: "Database \<Rightarrow> Video list" where
  "getVideos db = orderBy_desc v_uploaded_at (videosTable db)"

definition getTranslationsByVideo :: "int \<Rightarrow> Database \<Rightarrow> Translation list" where
  "getTranslationsByVideo video_id db =
     map (\<lambda>translation. translation \<lparr> t_progress_percentage := t_progress_percentage translation \<rparr>)
       (orderBy_desc t_created_at
          (filter (\<lambda>t. t_video_id t = video_id) (translationsTable db)))"

text \<open>
  \<^verbatim>\<open>.from(translationsTable).innerJoin(videosTable, eq(video_id, id))\<close>: one joined row
  for every pair of a translation and a video that satisfy the condition.
\<close>

definition innerJoin :: "Translation list \<Rightarrow> Video list \<Rightarrow> (Translation \<times> Video) list" where
  "innerJoin ts vs =
     concat (map (\<lambda>t. map (\<lambda>v. (t, v)) (filter (\<lambda>v. t_video_id t = v_id v) vs)) ts)"

text \<open>The object literal that both joined queries build from a joined row.\<close>

definition toTranslationWithVideo :: "Translation \<times> Video \<Rightarrow> TranslationWithVideo" where
  "toTranslationWithVideo result =
     (let translations = fst result; videos = snd result in
      \<lparr> t_id = t_id translations,
        t_video_id = t_video_id translations,
        t_target_language = t_target_language translations,
        t_status = t_status translations,
        t_translated_audio_path = t_translated_audio_path translations,
        t_transcript_original = t_transcript_original translations,
        t_transcript_translated = t_transcript_translated translations,
        t_progress_percentage = t_progress_percentage translations,
        t_error_message = t_error_message translations,
        t_started_at = t_started_at translations,
        t_completed_at = t_completed_at translations,
        t_created_at = t_created_at translations,
        t_updated_at = t_updated_at translations,
        video = \<lparr> v_id = v_id videos,
                  v_filename = v_filename videos,
                  v_original_filename = v_original_filename videos,
                  v_file_path = v_file_path videos,
                  v_file_size = v_file_size videos,
                  v_duration = v_duration videos,
                  v_mime_type = v_mime_type videos,
                  v_original_language = v_original_language videos,
                  v_uploaded_at = v_uploaded_at videos,
                  v_updated_at = v_updated_at videos \<rparr> \<rparr>)"

definition getAllTranslations :: "Database \<Rightarrow> TranslationWithVideo list" where
  "getAllTranslations db =
     map toTranslationWithVideo
       (orderBy_desc (\<lambda>r. t_created_at (fst r))
          (innerJoin (translationsTable db) (videosTable db)))"

definition getTranslationById :: "int \<Rightarrow> Database \<Rightarrow> TranslationWithVideo option" where
  "getTranslationById translation_id db =
     (let results = filter (\<lambda>r. t_id (fst r) = translation_id)
                      (innerJoin (translationsTable db) (videosTable db))
      in if length results = 0 then None else Some (toTranslationWithVideo (results ! 0)))"

section \<open>Consistency of a database\<close>

text \<open>
  What the primary keys and the \<^verbatim>\<open>serial\<close> sequences of \<^verbatim>\<open>db/schema.ts\<close> maintain: no
  two rows of a table share an id, and a sequence is ahead of every id of its table.
\<close>

definition primary_keys :: "Database \<Rightarrow> bool" where
  "primary_keys db \<longleftrightarrow>
     distinct (map v_id (videosTable db)) \<and>
     distinct (map t_id (translationsTable db)) \<and>
     list_all (\<lambda>v. v_id v < videos_id_seq db) (videosTable db) \<and>
     list_all (\<lambda>t. t_id t < translations_id_seq db) (translationsTable db)"

text \<open>The database after \<^verbatim>\<open>createDB\<close>: two empty tables, both sequences at 1.\<close>

definition createDB :: Database where
  "createDB = \<lparr> videosTable = [], translationsTable = [], videos_id_seq = 1,
                translations_id_seq = 1 \<rparr>"

text \<open>
  What \<^verbatim>\<open>video_id: integer('video_id').references(() => videosTable.id)\<close> maintains:
  the video of every translation is a row of the videos table.
\<close>

definition foreign_keys :: "Database \<Rightarrow> bool" where
  "foreign_keys db \<longleftrightarrow>
     list_all (\<lambda>t. t_video_id t \<in> v_id ` set (videosTable db)) (translationsTable db)"

text \<open>The databases that the three writing handlers produce from the empty one.\<close>

inductive reachable :: "Database \<Rightarrow> bool" where
  reachable_createDB: "reachable createDB"
| reachable_uploadVideo: "reachable db \<Longrightarrow> reachable (snd (uploadVideo now input db))"
| reachable_createTranslation:
    "reachable db \<Longrightarrow> reachable (snd (createTranslation now input' db))"
| reachable_updateTranslationProgress:
    "reachable db \<Longrightarrow> reachable (snd (updateTranslationProgress now input'' db))"

section \<open>A concrete database\<close>

text \<open>
  One video with a completed Spanish translation, as the tests set up before they call a
  handler. The worked instances below run the handlers on it.
\<close>

definition example_db :: Database where
  "example_db =
     \<lparr> videosTable =
         [\<lparr> v_id = 1, v_filename = ''a.mp4'', v_original_filename = ''A.mp4'',
            v_file_path = ''/uploads/a.mp4'', v_file_size = 1024000, v_duration = Some (241 / 2),
            v_mime_type = ''video/mp4'', v_original_language = Some L_en,
            v_uploaded_at = 1000, v_updated_at = 1000 \<rparr>],
       translationsTable =
         [\<lparr> t_id = 1, t_video_id = 1, t_target_language = L_es, t_status = completed,
            t_translated_audio_path = Some ''/audio/1.mp3'', t_transcript_original = Some ''hello'',
            t_transcript_translated = Some ''hola'', t_progress_percentage = 100,
            t_error_message = None, t_started_at = Some 2100, t_completed_at = Some 2900,
            t_created_at = 2000, t_updated_at = 2900 \<rparr>],
       videos_id_seq = 2, translations_id_seq = 2 \<rparr>"

text \<open>
  An update of translation 1 that provides four of the eight fields, two of them as
  \<^verbatim>\<open>null\<close>, and writes \<^verbatim>\<open>pending\<close> over \<^verbatim>\<open>completed\<close>; and the update that provides
  no field at all.
\<close>

definition example_update :: UpdateTranslationProgressInput where
  "example_update =
     \<lparr> u_translation_id = 1, u_status = Some pending, u_progress_percentage = None,
       u_translated_audio_path = Some None, u_transcript_original = None,
       u_transcript_translated = Some (Some ''buenos dias''), u_error_message = None,
       u_started_at = None, u_completed_at = Some None \<rparr>"


text \<open>The request of the tests' \<^verbatim>\<open>testVideoInput\<close> (duration 180.5).\<close>

definition example_upload :: RawUploadVideoInput where
  "example_upload =
     \<lparr> r_filename = ''test-video.mp4'', r_original_filename = ''original-test-video.mp4'',
       r_file_path = ''/uploads/test-video.mp4'', r_file_size = 5000000,
       r_duration = Some (361 / 2), r_mime_type = ''video/mp4'',
       r_original_language = Some ''en'' \<rparr>"

text \<open>
  A database with equal timestamps: videos 1 and 3 were uploaded at the same instant,
  translations 1 and 4 were created at the same instant, and translation 2 names a video
  (7) that is not in the videos table.
\<close>

definition ties_db :: Database where
  "ties_db =
     \<lparr> videosTable =
         [\<lparr> v_id = 1, v_filename = ''test1.mp4'', v_original_filename = ''o1.mp4'',
            v_file_path = ''/p/1'', v_file_size = 10, v_duration = None,
            v_mime_type = ''video/mp4'', v_original_language = None,
            v_uploaded_at = 1000, v_updated_at = 1000 \<rparr>,
          \<lparr> v_id = 2, v_filename = ''test2.mov'', v_original_filename = ''o2.mov'',
            v_file_path = ''/p/2'', v_file_size = 20, v_duration = None,
            v_mime_type = ''video/quicktime'', v_original_language = None,
            v_uploaded_at = 3000, v_updated_at = 3000 \<rparr>,
          \<lparr> v_id = 3, v_filename = ''test3.avi'', v_original_filename = ''o3.avi'',
            v_file_path = ''/p/3'', v_file_size = 30, v_duration = None,
            v_mime_type = ''video/avi'', v_original_language = None,
            v_uploaded_at = 1000, v_updated_at = 1000 \<rparr>],
       translationsTable =
         [\<lparr> t_id = 1, t_video_id = 1, t_target_language = L_es, t_status = pending,
            t_translated_audio_path = None, t_transcript_original = None,
            t_transcript_translated = None, t_progress_percentage = 0,
            t_error_message = None, t_started_at = None, t_completed_at = None,
            t_created_at = 4000, t_updated_at = 4000 \<rparr>,
          \<lparr> t_id = 2, t_video_id = 7, t_target_language = L_fr, t_status = pending,
            t_translated_audio_path = None, t_transcript_original = None,
            t_transcript_translated = None, t_progress_percentage = 0,
            t_error_message = None, t_started_at = None, t_completed_at = None,
            t_created_at = 5000, t_updated_at = 5000 \<rparr>,
          \<lparr> t_id = 3, t_video_id = 1, t_target_language = L_de, t_status = pending,
            t_translated_audio_path = None, t_transcript_original = None,
            t_transcript_translated = None, t_progress_percentage = 0,
            t_error_message = None, t_started_at = None, t_completed_at = None,
            t_created_at = 6000, t_updated_at = 6000 \<rparr>,
          \<lparr> t_id = 4, t_video_id = 2, t_target_language = L_de, t_status = pending,
            t_translated_audio_path = None, t_transcript_original = None,
            t_transcript_translated = None, t_progress_percentage = 0,
            t_error_message = None, t_started_at = None, t_completed_at = None,
            t_created_at = 4000, t_updated_at = 4000 \<rparr>],
       videos_id_seq = 4, translations_id_seq = 5 \<rparr>"

section \<open>Auxiliary facts\<close>

lemma filter_length_0_iff: "length (filter P xs) = 0 \<longleftrightarrow> (\<forall>x \<in> set xs. \<not> P x)"
  by (simp add: filter_empty_conv)

lemma filter_length_pos_iff: "0 < length (filter P xs) \<longleftrightarrow> (\<exists>x \<in> set xs. P x)"
  by (simp add: filter_empty_conv)

section \<open>createTranslation: the two guards and the inserted row\<close>

text \<open>
  C1. When the video exists and a Translation with the same video id and target language
  is already stored, createTranslation throws the error
  "Translation to <language> already exists for video <id>" and leaves the database as it
  was; when the video exists and no Translation with that video id and another language
  \<open>lang'\<close> is stored, createTranslation for \<open>lang'\<close> succeeds: it returns a row for that
  video and language and appends it to the table.
\<close>

theorem createTranslation_duplicate:
  assumes "\<exists>v \<in> set (videosTable db). v_id v = vid"
  shows "((\<exists>t \<in> set (translationsTable db). t_video_id t = vid \<and> t_target_language t = lang) \<longrightarrow>
            createTranslation now \<lparr>c_video_id = vid, c_target_language = lang\<rparr> db =
              (Inl (Error (''Translation to '' @ language_code lang @
                           '' already exists for video '' @ number_toString vid)), db))
       \<and> ((\<forall>t \<in> set (translationsTable db). \<not> (t_video_id t = vid \<and> t_target_language t = lang')) \<longrightarrow>
            (\<exists>row. fst (createTranslation now \<lparr>c_video_id = vid, c_target_language = lang'\<rparr> db) = Inr row
                 \<and> t_video_id row = vid \<and> t_target_language row = lang'
                 \<and> translationsTable
                      (snd (createTranslation now \<lparr>c_video_id = vid, c_target_language = lang'\<rparr> db))
                     = translationsTable db @ [row]))"
proof -
  from assms have v: "length (filter (\<lambda>v. v_id v = vid) (videosTable db)) \<noteq> 0"
    by (simp add: filter_empty_conv)
  show ?thesis
  proof (intro conjI impI)
    assume "\<exists>t \<in> set (translationsTable db). t_video_id t = vid \<and> t_target_language t = lang"
    then have "0 < length (filter (\<lambda>t. t_video_id t = vid \<and> t_target_language t = lang)
                             (translationsTable db))"
      by (simp only: filter_length_pos_iff)
    with v show "createTranslation now \<lparr>c_video_id = vid, c_target_language = lang\<rparr> db =
              (Inl (Error (''Translation to '' @ language_code lang @
                           '' already exists for video '' @ number_toString vid)), db)"
      by (simp add: createTranslation_def)
  next
    assume "\<forall>t \<in> set (translationsTable db). \<not> (t_video_id t = vid \<and> t_target_language t = lang')"
    then have "filter (\<lambda>t. t_video_id t = vid \<and> t_target_language t = lang')
                 (translationsTable db) = []"
      by (simp add: filter_empty_conv)
    with v show "\<exists>row. fst (createTranslation now \<lparr>c_video_id = vid, c_target_language = lang'\<rparr> db) = Inr row
                 \<and> t_video_id row = vid \<and> t_target_language row = lang'
                 \<and> translationsTable
                      (snd (createTranslation now \<lparr>c_video_id = vid, c_target_language = lang'\<rparr> db))
                     = translationsTable db @ [row]"
      by (simp add: createTranslation_def Let_def)
  qed
qed

text \<open>
  On the concrete database: a second Spanish translation of video 1 is refused with the
  message of the handler, a French one is created.
\<close>

theorem createTranslation_duplicate_witness:
  "createTranslation 5 \<lparr>c_video_id = 1, c_target_language = L_es\<rparr> example_db =
     (Inl (Error ''Translation to es already exists for video 1''), example_db)
   \<and> (\<exists>row. fst (createTranslation 5 \<lparr>c_video_id = 1, c_target_language = L_fr\<rparr> example_db) = Inr row
        \<and> t_video_id row = 1 \<and> t_target_language row = L_fr)"
proof -
  have n: "number_toString 1 = ''1''" by code_simp
  have h: "\<exists>v \<in> set (videosTable example_db). v_id v = 1" by (simp add: example_db_def)
  have e: "\<exists>t \<in> set (translationsTable example_db). t_video_id t = 1 \<and> t_target_language t = L_es"
    by (simp add: example_db_def)
  have f: "\<forall>t \<in> set (translationsTable example_db). \<not> (t_video_id t = 1 \<and> t_target_language t = L_fr)"
    by (simp add: example_db_def)
  from createTranslation_duplicate [OF h, of L_es 5 L_fr] e f n show ?thesis
    by auto
qed



text \<open>
  C3. Whenever createTranslation succeeds, the Translation it returns has status
  \<^verbatim>\<open>pending\<close>, progress_percentage 0, and translated_audio_path, transcript_original,
  transcript_translated, error_message, started_at and completed_at all null; created_at
  and updated_at are both the instant of the insert.
\<close>

theorem createTranslation_defaults:
  assumes "fst (createTranslation now input db) = Inr row"
  shows "t_status row = pending \<and> t_progress_percentage row = 0
       \<and> t_translated_audio_path row = None \<and> t_transcript_original row = None
       \<and> t_transcript_translated row = None \<and> t_error_message row = None
       \<and> t_started_at row = None \<and> t_completed_at row = None
       \<and> t_created_at row = now \<and> t_updated_at row = now"
  using assms
  by (auto simp: createTranslation_def Let_def split: if_splits)

text \<open>On the concrete database: the French translation of video 1 gets id 2 and the defaults.\<close>

theorem createTranslation_defaults_witness:
  "\<exists>row. fst (createTranslation 5 \<lparr>c_video_id = 1, c_target_language = L_fr\<rparr> example_db) = Inr row
     \<and> t_id row = 2 \<and> t_status row = pending \<and> t_progress_percentage row = 0
     \<and> t_translated_audio_path row = None \<and> t_transcript_original row = None
     \<and> t_transcript_translated row = None \<and> t_error_message row = None
     \<and> t_started_at row = None \<and> t_completed_at row = None"
proof -
  obtain row where r: "fst (createTranslation 5 \<lparr>c_video_id = 1, c_target_language = L_fr\<rparr> example_db) = Inr row"
    and i: "t_id row = 2"
    by (simp add: createTranslation_def example_db_def Let_def)
  from createTranslation_defaults [OF r] r i show ?thesis
    by blast
qed

section \<open>updateTranslationProgress: what is written and what is left\<close>

lemma set_columns_status:
  "t_status (set_columns (build_updateData now input) t) =
     (case u_status input of None \<Rightarrow> t_status t | Some s \<Rightarrow> s)"
  by (simp add: set_columns_def build_updateData_def)

lemma returned_row:
  assumes "t \<in> set (translationsTable db)" and "t_id t = u_translation_id input"
  shows "\<exists>t0 \<in> set (translationsTable db). t_id t0 = u_translation_id input \<and>
           fst (updateTranslationProgress now input db) =
             Some (set_columns (build_updateData now input) t0)"
proof -
  let ?m = "filter (\<lambda>t. t_id t = u_translation_id input) (translationsTable db)"
  from assms have "t \<in> set ?m" by simp
  then obtain t0 rest where c: "?m = t0 # rest"
    by (cases ?m) auto
  then have "t0 \<in> set ?m" by simp
  then have "t0 \<in> set (translationsTable db)" and "t_id t0 = u_translation_id input"
    by simp_all
  moreover from c have "fst (updateTranslationProgress now input db) =
      Some (set_columns (build_updateData now input) t0)"
    by (simp add: updateTranslationProgress_def Let_def)
  ultimately show ?thesis by blast
qed

lemma stored_rows:
  "translationsTable (snd (updateTranslationProgress now input db)) =
     map (\<lambda>t. if t_id t = u_translation_id input
               then set_columns (build_updateData now input) t else t)
       (translationsTable db)"
  by (simp add: updateTranslationProgress_def Let_def)


lemma untouched_tables:
  "videosTable (snd (updateTranslationProgress now input db)) = videosTable db \<and>
   videos_id_seq (snd (updateTranslationProgress now input db)) = videos_id_seq db \<and>
   translations_id_seq (snd (updateTranslationProgress now input db)) = translations_id_seq db"
  by (simp add: updateTranslationProgress_def Let_def)





text \<open>
  C6. No guard on status transitions: for a stored Translation with the given id, in
  whatever status, and any status \<open>s\<close> provided, updateTranslationProgress returns a row
  with status \<open>s\<close>, and every stored row with that id (there is one) has status \<open>s\<close>
  afterwards.
\<close>

theorem updateTranslationProgress_any_status:
  assumes "t \<in> set (translationsTable db)" and "t_id t = u_translation_id input"
    and "u_status input = Some s"
  shows "(\<exists>r. fst (updateTranslationProgress now input db) = Some r \<and> t_status r = s)
       \<and> (\<forall>t' \<in> set (translationsTable (snd (updateTranslationProgress now input db))).
            t_id t' = u_translation_id input \<longrightarrow> t_status t' = s)
       \<and> (\<exists>t' \<in> set (translationsTable (snd (updateTranslationProgress now input db))).
            t_id t' = u_translation_id input)"
proof (intro conjI)
  from returned_row [OF assms(1,2), of now] assms(3)
  show "\<exists>r. fst (updateTranslationProgress now input db) = Some r \<and> t_status r = s"
    by (auto simp: set_columns_status)
next
  have i: "t_id (set_columns (build_updateData now input) x) = t_id x" for x
    by (simp add: set_columns_def)
  show "\<forall>t' \<in> set (translationsTable (snd (updateTranslationProgress now input db))).
            t_id t' = u_translation_id input \<longrightarrow> t_status t' = s"
    using assms(3) by (auto simp: stored_rows set_columns_status i split: if_splits)
  let ?f = "\<lambda>t. if t_id t = u_translation_id input
                 then set_columns (build_updateData now input) t else t"
  from assms(1) have "?f t \<in> ?f ` set (translationsTable db)"
    by (rule imageI)
  with assms(2) have "set_columns (build_updateData now input) t
      \<in> set (translationsTable (snd (updateTranslationProgress now input db)))"
    by (simp add: stored_rows)
  with assms(2) show "\<exists>t' \<in> set (translationsTable (snd (updateTranslationProgress now input db))).
            t_id t' = u_translation_id input"
    using i by metis
qed

text \<open>On the concrete database: the completed translation 1 is set back to pending.\<close>

theorem updateTranslationProgress_any_status_witness:
  "t_status (hd (translationsTable example_db)) = completed
   \<and> (\<exists>r. fst (updateTranslationProgress 7 example_update example_db) = Some r \<and> t_status r = pending)
   \<and> map t_status (translationsTable (snd (updateTranslationProgress 7 example_update example_db)))
       = [pending]"
proof -
  have a: "hd (translationsTable example_db) \<in> set (translationsTable example_db)"
    by (simp add: example_db_def)
  have b: "t_id (hd (translationsTable example_db)) = u_translation_id example_update"
    by (simp add: example_db_def example_update_def)
  have c: "u_status example_update = Some pending"
    by (simp add: example_update_def)
  have d: "t_status (hd (translationsTable example_db)) = completed"
    by (simp add: example_db_def)
  have e: "map t_status (translationsTable (snd (updateTranslationProgress 7 example_update example_db)))
       = [pending]"
    by (simp add: stored_rows set_columns_status example_db_def example_update_def)
  from updateTranslationProgress_any_status [OF a b c, of 7] d e show ?thesis
    by blast
qed

section \<open>Consistency is maintained\<close>

lemma primary_keys_createDB: "primary_keys createDB"
  by (simp add: primary_keys_def createDB_def)

lemma seq_ahead: "list_all (\<lambda>x. f x < (n::int)) xs \<Longrightarrow> n \<notin> f ` set xs"
  by (auto simp: list_all_iff)

lemma seq_ahead_le: "list_all (\<lambda>x. f x < (n::int)) xs \<Longrightarrow> list_all (\<lambda>x. f x \<le> n) xs"
  by (auto simp: list_all_iff)

lemma primary_keys_uploadVideo:
  assumes "primary_keys db"
  shows "primary_keys (snd (uploadVideo now input db))"
  using assms
  by (simp add: primary_keys_def uploadVideo_def Let_def seq_ahead seq_ahead_le)

lemma primary_keys_createTranslation:
  assumes "primary_keys db"
  shows "primary_keys (snd (createTranslation now input db))"
  using assms
  by (simp add: primary_keys_def createTranslation_def Let_def seq_ahead seq_ahead_le)

lemma set_columns_id: "t_id (set_columns d t) = t_id t"
  by (simp add: set_columns_def)

lemma primary_keys_updateTranslationProgress:
  assumes "primary_keys db"
  shows "primary_keys (snd (updateTranslationProgress now input db))"
proof -
  have m: "map t_id (translationsTable (snd (updateTranslationProgress now input db)))
          = map t_id (translationsTable db)"
    by (simp add: stored_rows set_columns_id)
  have "list_all (\<lambda>t. t_id t < n) (translationsTable (snd (updateTranslationProgress now input db)))
          = list_all (\<lambda>i. i < n) (map t_id (translationsTable (snd (updateTranslationProgress now input db))))" for n
    by (simp add: list_all_iff)
  then have l: "list_all (\<lambda>t. t_id t < n) (translationsTable (snd (updateTranslationProgress now input db)))
          = list_all (\<lambda>t. t_id t < n) (translationsTable db)" for n
    by (simp add: m list_all_iff)
  from assms show ?thesis
    by (simp add: primary_keys_def untouched_tables m l)
qed

lemma reachable_primary_keys: "reachable db \<Longrightarrow> primary_keys db"
  by (induction rule: reachable.induct)
     (simp_all add: primary_keys_createDB primary_keys_uploadVideo
        primary_keys_createTranslation primary_keys_updateTranslationProgress)

text \<open>
  The same for the foreign key: createTranslation inserts a row only for a video it has
  found, so a database built by the handlers has no translation without its video.
\<close>

lemma foreign_keys_createDB: "foreign_keys createDB"
  by (simp add: foreign_keys_def createDB_def)

lemma foreign_keys_uploadVideo:
  assumes "foreign_keys db"
  shows "foreign_keys (snd (uploadVideo now input db))"
  using assms
  by (auto simp: foreign_keys_def uploadVideo_def Let_def list_all_iff)

lemma foreign_keys_createTranslation:
  assumes "foreign_keys db"
  shows "foreign_keys (snd (createTranslation now input db))"
proof (cases "filter (\<lambda>v. v_id v = c_video_id input) (videosTable db)")
  case Nil
  with assms show ?thesis
    by (simp add: createTranslation_def)
next
  case (Cons v vs)
  then have "v \<in> set (filter (\<lambda>v. v_id v = c_video_id input) (videosTable db))"
    by simp
  then have "c_video_id input \<in> v_id ` set (videosTable db)"
    by force
  with assms show ?thesis
    by (simp add: foreign_keys_def createTranslation_def Let_def)
qed

lemma set_columns_video_id: "t_video_id (set_columns d t) = t_video_id t"
  by (simp add: set_columns_def)

lemma foreign_keys_updateTranslationProgress:
  assumes "foreign_keys db"
  shows "foreign_keys (snd (updateTranslationProgress now input db))"
  using assms
  by (auto simp: foreign_keys_def stored_rows untouched_tables list_all_iff set_columns_video_id)

lemma reachable_foreign_keys: "reachable db \<Longrightarrow> foreign_keys db"
  by (induction rule: reachable.induct)
     (simp_all add: foreign_keys_createDB foreign_keys_uploadVideo
        foreign_keys_createTranslation foreign_keys_updateTranslationProgress)

section \<open>uploadVideo and getVideoById\<close>


lemma supportedLanguagesSchema_None:
  "s \<notin> {''en'', ''es'', ''fr'', ''de'', ''it'', ''pt'', ''ru'', ''ja'', ''ko'', ''zh'', ''ar'', ''hi''}
   \<Longrightarrow> supportedLanguagesSchema s = None"
  by (simp add: supportedLanguagesSchema_def)





text \<open>
  C9. A request whose file_size is not positive, or whose duration is present and not
  positive, or whose original_language is present and not one of the twelve supported
  codes, is answered by the procedure uploadVideo with a validation error, and the database
  is as it was: the handler does not run and no Video row is created.
\<close>

theorem uploadVideo_validation:
  assumes "\<not> r_file_size r > 0
         \<or> (\<exists>d. r_duration r = Some d \<and> \<not> d > 0)
         \<or> (\<exists>s. r_original_language r = Some s \<and>
                s \<notin> {''en'', ''es'', ''fr'', ''de'', ''it'', ''pt'', ''ru'', ''ja'', ''ko'', ''zh'',
                      ''ar'', ''hi''})"
  shows "appRouter_uploadVideo now r db = (Inl ValidationError, db)"
proof -
  from assms have "uploadVideoInputSchema r = Inl ValidationError"
    by (auto simp: uploadVideoInputSchema_def supportedLanguagesSchema_None split: option.splits)
  then show ?thesis
    by (simp add: appRouter_uploadVideo_def)
qed

text \<open>On the concrete database, one request for each of the three violations.\<close>

theorem uploadVideo_validation_witness:
  "appRouter_uploadVideo 9 (example_upload \<lparr> r_file_size := 0 \<rparr>) example_db
     = (Inl ValidationError, example_db)
   \<and> appRouter_uploadVideo 9 (example_upload \<lparr> r_duration := Some (- 1) \<rparr>) example_db
     = (Inl ValidationError, example_db)
   \<and> appRouter_uploadVideo 9 (example_upload \<lparr> r_original_language := Some ''xx'' \<rparr>) example_db
     = (Inl ValidationError, example_db)"
  using uploadVideo_validation [of "example_upload \<lparr> r_file_size := 0 \<rparr>" 9 example_db]
        uploadVideo_validation [of "example_upload \<lparr> r_duration := Some (- 1) \<rparr>" 9 example_db]
        uploadVideo_validation [of "example_upload \<lparr> r_original_language := Some ''xx'' \<rparr>" 9 example_db]
  by simp

section \<open>The list queries\<close>

lemma sorted_orderBy_desc: "sorted_wrt (\<ge>) (map column (orderBy_desc column rows))"
proof -
  have "sorted (map (\<lambda>r. - column r) (sort_key (\<lambda>r. - column r) rows))"
    by (rule sorted_sort_key)
  then show ?thesis
    by (simp add: orderBy_desc_def sorted_wrt_map)
qed

lemma mset_orderBy_desc: "mset (orderBy_desc column rows) = mset rows"
  by (simp add: orderBy_desc_def)

lemma set_orderBy_desc: "set (orderBy_desc column rows) = set rows"
  by (simp add: orderBy_desc_def)

lemma progress_unchanged:
  "map (\<lambda>translation. translation \<lparr> t_progress_percentage := t_progress_percentage translation \<rparr>) ts = ts"
  by (simp add: map_idI)

lemma created_at_joined: "t_created_at (toTranslationWithVideo r) = t_created_at (fst r)"
  by (simp add: toTranslationWithVideo_def Let_def)

text \<open>
  C8. Whatever the order of the rows in the tables, and also when timestamps are equal:
  getVideos returns all Videos in descending order of uploaded_at; getAllTranslations
  returns its rows in descending order of created_at; getTranslationsByVideo returns the
  Translations of the given video, all of them, in descending order of created_at.
\<close>

theorem queries_sorted_descending:
  "sorted_wrt (\<ge>) (map v_uploaded_at (getVideos db))
   \<and> mset (getVideos db) = mset (videosTable db)
   \<and> sorted_wrt (\<ge>) (map t_created_at (getAllTranslations db))
   \<and> sorted_wrt (\<ge>) (map t_created_at (getTranslationsByVideo vid db))
   \<and> mset (getTranslationsByVideo vid db)
       = mset (filter (\<lambda>t. t_video_id t = vid) (translationsTable db))"
proof (intro conjI)
  show "sorted_wrt (\<ge>) (map v_uploaded_at (getVideos db))"
    by (simp only: getVideos_def sorted_orderBy_desc)
  show "mset (getVideos db) = mset (videosTable db)"
    by (simp only: getVideos_def mset_orderBy_desc)
  have "map t_created_at (getAllTranslations db) =
          map (\<lambda>r. t_created_at (fst r))
            (orderBy_desc (\<lambda>r. t_created_at (fst r))
               (innerJoin (translationsTable db) (videosTable db)))"
    by (simp add: getAllTranslations_def created_at_joined comp_def)
  then show "sorted_wrt (\<ge>) (map t_created_at (getAllTranslations db))"
    by (simp only: sorted_orderBy_desc)
  show "sorted_wrt (\<ge>) (map t_created_at (getTranslationsByVideo vid db))"
    by (simp only: getTranslationsByVideo_def progress_unchanged sorted_orderBy_desc)
  show "mset (getTranslationsByVideo vid db)
       = mset (filter (\<lambda>t. t_video_id t = vid) (translationsTable db))"
    by (simp only: getTranslationsByVideo_def progress_unchanged mset_orderBy_desc)
qed

text \<open>On the database with equal timestamps.\<close>

theorem queries_sorted_descending_witness:
  "map v_uploaded_at (getVideos ties_db) = [3000, 1000, 1000]
   \<and> sorted_wrt (\<ge>) (map v_uploaded_at (getVideos ties_db))
   \<and> map t_created_at (getAllTranslations ties_db) = [6000, 4000, 4000]
   \<and> sorted_wrt (\<ge>) (map t_created_at (getAllTranslations ties_db))
   \<and> map t_created_at (getTranslationsByVideo 1 ties_db) = [6000, 4000]
   \<and> sorted_wrt (\<ge>) (map t_created_at (getTranslationsByVideo 1 ties_db))"
proof -
  have 1: "map v_uploaded_at (getVideos ties_db) = [3000, 1000, 1000]"
    by (simp add: getVideos_def orderBy_desc_def ties_db_def)
  have 2: "map t_created_at (getAllTranslations ties_db) = [6000, 4000, 4000]"
    by (simp add: getAllTranslations_def orderBy_desc_def innerJoin_def ties_db_def
          created_at_joined)
  have 3: "map t_created_at (getTranslationsByVideo 1 ties_db) = [6000, 4000]"
    by (simp add: getTranslationsByVideo_def orderBy_desc_def ties_db_def)
  note q = queries_sorted_descending [of ties_db 1]
  from q have a: "sorted_wrt (\<ge>) (map v_uploaded_at (getVideos ties_db))"
    by (rule conjunct1)
  from q have b: "sorted_wrt (\<ge>) (map t_created_at (getAllTranslations ties_db))"
    by blast
  from q have c: "sorted_wrt (\<ge>) (map t_created_at (getTranslationsByVideo 1 ties_db))"
    by blast
  from 1 a 2 b 3 c show ?thesis
    by blast
qed

section \<open>The joined queries\<close>

lemma set_innerJoin:
  "set (innerJoin ts vs) = {(t, v). t \<in> set ts \<and> v \<in> set vs \<and> t_video_id t = v_id v}"
  by (auto simp: innerJoin_def)

lemma video_joined: "video (toTranslationWithVideo (t, v)) = v"
  by (cases v) (simp add: toTranslationWithVideo_def)

lemma video_id_joined: "t_video_id (toTranslationWithVideo (t, v)) = t_video_id t"
  by (simp add: toTranslationWithVideo_def)

lemma id_joined: "t_id (toTranslationWithVideo (t, v)) = t_id t"
  by (simp add: toTranslationWithVideo_def)

lemma truncate_joined: "Translation.truncate (toTranslationWithVideo (t, v)) = t"
  by (cases t) (simp add: toTranslationWithVideo_def Translation.truncate_def)

lemma getAllTranslations_rows:
  assumes "r \<in> set (getAllTranslations db)"
  shows "\<exists>t v. r = toTranslationWithVideo (t, v) \<and> t \<in> set (translationsTable db)
           \<and> v \<in> set (videosTable db) \<and> t_video_id t = v_id v"
  using assms
  by (auto simp: getAllTranslations_def set_orderBy_desc set_innerJoin)

lemma getTranslationById_row:
  assumes "getTranslationById tid db = Some r"
  shows "\<exists>t v. r = toTranslationWithVideo (t, v) \<and> t \<in> set (translationsTable db)
           \<and> v \<in> set (videosTable db) \<and> t_video_id t = v_id v \<and> t_id t = tid"
proof -
  let ?results = "filter (\<lambda>r. t_id (fst r) = tid)
                    (innerJoin (translationsTable db) (videosTable db))"
  from assms have n: "length ?results \<noteq> 0" and r: "r = toTranslationWithVideo (?results ! 0)"
    by (auto simp: getTranslationById_def Let_def split: if_splits)
  from n have "?results ! 0 \<in> set ?results"
    by (intro nth_mem) simp
  then have "?results ! 0 \<in> set (innerJoin (translationsTable db) (videosTable db))"
    and "t_id (fst (?results ! 0)) = tid"
    by simp_all
  with r show ?thesis
    by (cases "?results ! 0") (auto simp: set_innerJoin)
qed

text \<open>
  C10. Every record that getAllTranslations or getTranslationById returns embeds the
  owning video: the id of its \<^verbatim>\<open>video\<close> is its \<^verbatim>\<open>video_id\<close>, and that video is a row of
  the videos table. The join is an inner join: a Translation whose video_id is the id of
  no Video is the translation part of no record of getAllTranslations, and
  getTranslationById answers null for an id whose translations are all of this kind
  (it neither returns a record without a video nor throws).
\<close>

theorem joined_video_is_owner:
  "(\<forall>r \<in> set (getAllTranslations db).
      v_id (video r) = t_video_id r \<and> video r \<in> set (videosTable db))
   \<and> (\<forall>r. getTranslationById tid db = Some r \<longrightarrow>
        v_id (video r) = t_video_id r \<and> video r \<in> set (videosTable db) \<and> t_id r = tid)
   \<and> (\<forall>t \<in> set (translationsTable db).
        (\<forall>v \<in> set (videosTable db). v_id v \<noteq> t_video_id t) \<longrightarrow>
          t \<notin> Translation.truncate ` set (getAllTranslations db))
   \<and> ((\<forall>t \<in> set (translationsTable db). t_id t = tid \<longrightarrow>
          (\<forall>v \<in> set (videosTable db). v_id v \<noteq> t_video_id t)) \<longrightarrow>
        getTranslationById tid db = None)"
proof (intro conjI ballI allI impI)
  fix r assume "r \<in> set (getAllTranslations db)"
  from getAllTranslations_rows [OF this]
  show "v_id (video r) = t_video_id r" and "video r \<in> set (videosTable db)"
    by (auto simp: video_joined video_id_joined)
next
  fix r assume "getTranslationById tid db = Some r"
  from getTranslationById_row [OF this]
  show "v_id (video r) = t_video_id r" and "video r \<in> set (videosTable db)" and "t_id r = tid"
    by (auto simp: video_joined video_id_joined id_joined)
next
  fix t assume t: "t \<in> set (translationsTable db)"
    and orphan: "\<forall>v \<in> set (videosTable db). v_id v \<noteq> t_video_id t"
  show "t \<notin> Translation.truncate ` set (getAllTranslations db)"
  proof
    assume "t \<in> Translation.truncate ` set (getAllTranslations db)"
    then obtain r where r: "r \<in> set (getAllTranslations db)" and "t = Translation.truncate r"
      by auto
    with getAllTranslations_rows [OF r] obtain v where "v \<in> set (videosTable db)"
      and "t_video_id t = v_id v"
      by (auto simp: truncate_joined)
    with orphan show False by auto
  qed
next
  assume orphans: "\<forall>t \<in> set (translationsTable db). t_id t = tid \<longrightarrow>
          (\<forall>v \<in> set (videosTable db). v_id v \<noteq> t_video_id t)"
  show "getTranslationById tid db = None"
  proof (cases "getTranslationById tid db")
    case None
    then show ?thesis .
  next
    case (Some r)
    from getTranslationById_row [OF this] orphans show ?thesis
      by metis
  qed
qed

text \<open>
  On the database above: translation 2 names the missing video 7 and is absent from both
  queries; translation 3 comes back with video 1.
\<close>

theorem joined_video_is_owner_witness:
  "map t_id (translationsTable ties_db) = [1, 2, 3, 4]
   \<and> map t_id (getAllTranslations ties_db) = [3, 1, 4]
   \<and> map (\<lambda>r. v_id (video r)) (getAllTranslations ties_db) = [1, 1, 2]
   \<and> getTranslationById 2 ties_db = None
   \<and> (\<exists>r. getTranslationById 3 ties_db = Some r \<and> v_id (video r) = 1 \<and> t_video_id r = 1)"
proof -
  have 1: "map t_id (translationsTable ties_db) = [1, 2, 3, 4]"
    by (simp add: ties_db_def)
  have 2: "map t_id (getAllTranslations ties_db) = [3, 1, 4]"
    by (simp add: getAllTranslations_def orderBy_desc_def innerJoin_def ties_db_def id_joined)
  have 3: "map (\<lambda>r. v_id (video r)) (getAllTranslations ties_db) = [1, 1, 2]"
    by (simp add: getAllTranslations_def orderBy_desc_def innerJoin_def ties_db_def video_joined)
  have o: "\<forall>t \<in> set (translationsTable ties_db). t_id t = 2 \<longrightarrow>
          (\<forall>v \<in> set (videosTable ties_db). v_id v \<noteq> t_video_id t)"
    by (simp add: ties_db_def)
  obtain r where r: "getTranslationById 3 ties_db = Some r" and v: "t_video_id r = 1"
    by (simp add: getTranslationById_def innerJoin_def ties_db_def Let_def video_id_joined)
  note j = joined_video_is_owner [of ties_db]
  from j [of 2] o have 4: "getTranslationById 2 ties_db = None"
    by blast
  from j [of 3] r have "v_id (video r) = t_video_id r"
    by blast
  with r v have 5: "\<exists>r. getTranslationById 3 ties_db = Some r \<and> v_id (video r) = 1 \<and> t_video_id r = 1"
    by simp
  from 1 2 3 4 5 show ?thesis by blast
qed

end
